theory Spec2Isabelle
  imports Complex_Main "HOL-Library.Sublist"
begin

section \<open>Values of the interpreter and of the external services\<close>

text \<open>
  A value decoded from a JSON document, as \<open>response.json()\<close> hands it to the program:
  \<open>None\<close>, a bool, an int, a float, a str, a list or a dict. A dict is an association
  list read with \<open>map_of\<close>. A float is the real number it denotes.
\<close>

datatype json =
    JNull
  | JBool bool
  | JInt int
  | JFloat real
  | JStr string
  | JArr "json list"
  | JObj "(string \<times> json) list"

text \<open>The exceptions that can leave the functions of \<open>main.py\<close>.\<close>

datatype error =
    RequestException
  | JSONDecodeError
  | AttributeError
  | IndexError
  | PineconeException

text \<open>
  \<open>d.get(key, default)\<close>: only a dict has the method; on every other value the attribute
  lookup raises \<open>AttributeError\<close>. A key that is present with the value \<open>None\<close> yields
  \<open>None\<close>, not the default.
\<close>

fun dict_get :: "json \<Rightarrow> string \<Rightarrow> json \<Rightarrow> error + json" where
  "dict_get (JObj kvs) key dflt = Inr (case map_of kvs key of None \<Rightarrow> dflt | Some v \<Rightarrow> v)"
| "dict_get JNull key dflt = Inl AttributeError"
| "dict_get (JBool b) key dflt = Inl AttributeError"
| "dict_get (JInt n) key dflt = Inl AttributeError"
| "dict_get (JFloat x) key dflt = Inl AttributeError"
| "dict_get (JStr s) key dflt = Inl AttributeError"
| "dict_get (JArr xs) key dflt = Inl AttributeError"

text \<open>\<open>xs[i]\<close> for a non-negative index: \<open>IndexError\<close> out of range.\<close>

definition index_at :: "'a list \<Rightarrow> nat \<Rightarrow> error + 'a" where
  "index_at xs i = (if i < length xs then Inr (xs ! i) else Inl IndexError)"

text \<open>
  \<open>str\<close> as an f-string field applies it. The decimal digits of an int are computed;
  the text of a float (its shortest round-trip form), of a list and of a dict is the
  interpreter's, taken as the parameter \<open>repr\<close>.
\<close>

fun str_nat :: "nat \<Rightarrow> string" where
  "str_nat n =
     (if n < 10 then [char_of (48 + n)]
      else str_nat (n div 10) @ [char_of (48 + n mod 10)])"

declare str_nat.simps [simp del]

definition str_int :: "int \<Rightarrow> string" where
  "str_int k = (if k < 0 then CHR ''-'' # str_nat (nat (- k)) else str_nat (nat k))"

fun py_str :: "(json \<Rightarrow> string) \<Rightarrow> json \<Rightarrow> string" where
  "py_str repr JNull = ''None''"
| "py_str repr (JBool b) = (if b then ''True'' else ''False'')"
| "py_str repr (JInt k) = str_int k"
| "py_str repr (JStr s) = s"
| "py_str repr (JFloat x) = repr (JFloat x)"
| "py_str repr (JArr xs) = repr (JArr xs)"
| "py_str repr (JObj kvs) = repr (JObj kvs)"

text \<open>\<open>sub in s\<close> on strings: a contiguous occurrence.\<close>

definition str_contains :: "string \<Rightarrow> string \<Rightarrow> bool" where
  "str_contains s sub = sublist sub s"

section \<open>The weather service\<close>

text \<open>
  The query parameters of the request, the response as far as the program reads it
  (\<open>response_json = None\<close>: the body is not a JSON document, \<open>response.json()\<close> raises),
  and the process environment with the HTTP client. \<open>requests_get\<close> either raises
  (network failure, unusable URL) or returns a response; it is fixed during one run
  of a workflow.
\<close>

record params =
  param_latitude :: real
  param_longitude :: real
  param_current_weather :: bool

record response =
  status_code :: int
  response_json :: "json option"

record world =
  environ_WEATHER_URL :: "string option"
  requests_get :: "string option \<Rightarrow> params \<Rightarrow> error + response"

text \<open>The dict \<open>{"temperature": ..., "wind_speed": ...}\<close> that the fetcher returns.\<close>

record weather_info =
  temperature :: json
  wind_speed :: json

definition get_current_weather ::
  "world \<Rightarrow> string \<Rightarrow> real \<Rightarrow> real \<Rightarrow> error + weather_info option" where
  "get_current_weather w city_name latitude longitude =
     (let url = environ_WEATHER_URL w;
          params = \<lparr>param_latitude = latitude, param_longitude = longitude,
                    param_current_weather = True\<rparr>
      in case requests_get w url params of
           Inl e \<Rightarrow> Inl e
         | Inr response \<Rightarrow>
             if status_code response = 200 then
               (case response_json response of
                  None \<Rightarrow> Inl JSONDecodeError
                | Some body \<Rightarrow>
                    (case dict_get body ''current_weather'' (JObj []) of
                       Inl e \<Rightarrow> Inl e
                     | Inr data \<Rightarrow>
                         (case dict_get data ''temperature'' JNull of
                            Inl e \<Rightarrow> Inl e
                          | Inr t \<Rightarrow>
                              (case dict_get data ''windspeed'' JNull of
                                 Inl e \<Rightarrow> Inl e
                               | Inr ws \<Rightarrow>
                                   Inr (Some \<lparr>temperature = t, wind_speed = ws\<rparr>)))))
             else Inr None)"

text \<open>
  \<open>if weather_info:\<close> \<^emph>\<open>None\<close> is false; the returned dict always has its two keys,
  so it is non-empty and true whatever the values are.
\<close>

fun truthy :: "weather_info option \<Rightarrow> bool" where
  "truthy None = False"
| "truthy (Some info) = True"

section \<open>The vector index\<close>

text \<open>
  A record as the program hands it to \<open>index.upsert\<close>, and a match as \<open>index.query\<close>
  returns it: the Query Match of the specification, with the id, the score and the
  metadata dict that the program reads. \<open>'v\<close> is the type of embedding vectors, a score
  is the real number its float denotes. The index object is a state \<open>'ix\<close> with its two
  methods; \<open>upsert\<close> returns the state after the call and the exception it raised, if
  any.
\<close>

record 'v vrecord =
  vec_id :: string
  vec_values :: 'v
  vec_metadata :: "(string \<times> json) list"

record qmatch =
  match_id :: string
  match_score :: real
  match_metadata :: "(string \<times> json) list"

record ('ix, 'v) index_client =
  upsert :: "'ix \<Rightarrow> 'v vrecord list \<Rightarrow> error option \<times> 'ix"
  query :: "'ix \<Rightarrow> 'v \<Rightarrow> nat \<Rightarrow> bool \<Rightarrow> error + qmatch list"

section \<open>Ingestion\<close>

text \<open>
  The loop of \<open>fetch_and_store_weather_data\<close> over \<open>enumerate(cities.items())\<close>, with the
  dict under construction and the index state as accumulators. An exception ends the
  run; the index keeps what was written before.
\<close>

fun ingest_loop ::
  "world \<Rightarrow> 'v list \<Rightarrow> ('ix, 'v) index_client \<Rightarrow> (nat \<times> string \<times> real \<times> real) list \<Rightarrow>
   (string \<rightharpoonup> weather_info) \<Rightarrow> 'ix \<Rightarrow> (error + (string \<rightharpoonup> weather_info)) \<times> 'ix" where
  "ingest_loop w city_embeddings client [] weather_data index = (Inr weather_data, index)"
| "ingest_loop w city_embeddings client ((i, city, lat, lon) # rest) weather_data index =
     (case get_current_weather w city lat lon of
        Inl e \<Rightarrow> (Inl e, index)
      | Inr weather \<Rightarrow>
          if truthy weather then
            (case weather of
               None \<Rightarrow> ingest_loop w city_embeddings client rest weather_data index
             | Some info \<Rightarrow>
                 (case index_at city_embeddings i of
                    Inl e \<Rightarrow> (Inl e, index)
                  | Inr v \<Rightarrow>
                      (case upsert client index
                              [\<lparr>vec_id = city, vec_values = v,
                                vec_metadata = [(''temperature'', temperature info),
                                                (''wind_speed'', wind_speed info)]\<rparr>] of
                         (Some e, index') \<Rightarrow> (Inl e, index')
                       | (None, index') \<Rightarrow>
                           ingest_loop w city_embeddings client rest
                             (weather_data(city \<mapsto> info)) index')))
          else ingest_loop w city_embeddings client rest weather_data index)"

text \<open>
  \<open>cities\<close> is the dict of the source in insertion order: city name, then latitude and
  longitude. \<open>embedding_model\<close> is the model's \<open>encode\<close>.
\<close>

definition fetch_and_store_weather_data ::
  "world \<Rightarrow> (string \<times> real \<times> real) list \<Rightarrow> (string list \<Rightarrow> 'v list) \<Rightarrow>
   ('ix, 'v) index_client \<Rightarrow> 'ix \<Rightarrow> (error + (string \<rightharpoonup> weather_info)) \<times> 'ix" where
  "fetch_and_store_weather_data w cities embedding_model client index =
     (let weather_data = Map.empty;
          city_names = map fst cities;
          city_embeddings = embedding_model city_names
      in ingest_loop w city_embeddings client (enumerate 0 cities) weather_data index)"

section \<open>Query\<close>

text \<open>
  The float literal \<open>0.3\<close> denotes the binary64 number nearest to three tenths; a score
  is the real number its float denotes, so the comparison of the source is the order
  of the reals against that number.
\<close>

definition float_0_3 :: real where
  "float_0_3 = 5404319552844595 / 18014398509481984"

definition not_found_message :: string where
  "not_found_message =
     ''Sorry, I couldn't find weather information for any city in your query.''"

definition low_confidence_message :: "string \<Rightarrow> string" where
  "low_confidence_message city_name =
     ''I found a possible match for '' @ [CHR 0x27] @ city_name @ [CHR 0x27] @
     '', but I'm not very confident. Could you be more specific?''"

text \<open>
  The two characters between the temperature and \<open>C\<close> are U+00C2 and U+00B0 in the
  source file; strings are UTF-8 byte sequences here.
\<close>

definition weather_message :: "(json \<Rightarrow> string) \<Rightarrow> string \<Rightarrow> json \<Rightarrow> json \<Rightarrow> string" where
  "weather_message repr city_name t ws =
     ''Today's weather in '' @ city_name @ '':\<newline>- Temperature: '' @ py_str repr t @
     [CHR 0xC3, CHR 0x82, CHR 0xC2, CHR 0xB0] @ ''C\<newline>- Wind speed: '' @ py_str repr ws @
     '' km/h''"

text \<open>\<open>metadata.get(key)\<close> on the dict of a match: \<open>None\<close> for a missing key.\<close>

definition get_or_None :: "(string \<times> json) list \<Rightarrow> string \<Rightarrow> json" where
  "get_or_None d key = (case map_of d key of None \<Rightarrow> JNull | Some v \<Rightarrow> v)"

definition query_weather ::
  "(json \<Rightarrow> string) \<Rightarrow> string \<Rightarrow> (string list \<Rightarrow> 'v list) \<Rightarrow> ('ix, 'v) index_client \<Rightarrow> 'ix \<Rightarrow>
   error + string" where
  "query_weather repr prompt embedding_model client index =
     (let prompt_embedding = embedding_model [prompt]
      in case index_at prompt_embedding 0 of
           Inl e \<Rightarrow> Inl e
         | Inr vector \<Rightarrow>
             (case query client index vector 1 True of
                Inl e \<Rightarrow> Inl e
              | Inr matches \<Rightarrow>
                  (case matches of
                     [] \<Rightarrow> Inr not_found_message
                   | best_match # others \<Rightarrow>
                       if match_score best_match < float_0_3 then
                         Inr (low_confidence_message (match_id best_match))
                       else
                         Inr (weather_message repr (match_id best_match)
                                (get_or_None (match_metadata best_match) ''temperature'')
                                (get_or_None (match_metadata best_match) ''wind_speed'')))))"

section \<open>The vector store of the specification\<close>

text \<open>
  Modelled from the spec: the state of the Vector Store, an external service of which
  the repository holds only the calls. The specification describes it as persisting
  (id, vector, metadata) triples in an index created with a similarity metric; the
  similarity of two vectors is the parameter \<open>metric\<close>.
\<close>

record 'v store =
  metric :: "'v \<Rightarrow> 'v \<Rightarrow> real"
  records :: "'v vrecord list"

text \<open>
  Modelled from the spec: the upsert of the Vector Store, "an insert-or-update operation
  keyed by record identifier": the record replaces whatever the store held under its id.
\<close>

definition upsert1 :: "'v store \<Rightarrow> 'v vrecord \<Rightarrow> 'v store" where
  "upsert1 s r = s\<lparr>records := filter (\<lambda>x. vec_id x \<noteq> vec_id r) (records s) @ [r]\<rparr>"

text \<open>
  Modelled from the spec: \<open>index.upsert\<close> of the Vector Store on a batch of records, one
  upsert per record in order; the specification names no failure of it.
\<close>

definition store_upsert :: "'v store \<Rightarrow> 'v vrecord list \<Rightarrow> error option \<times> 'v store" where
  "store_upsert s batch = (None, foldl upsert1 s batch)"

text \<open>
  Modelled from the spec: the match that a query returns for a stored record, "matched
  record id, its metadata, and a similarity score".
\<close>

definition to_match :: "'v store \<Rightarrow> 'v \<Rightarrow> bool \<Rightarrow> 'v vrecord \<Rightarrow> qmatch" where
  "to_match s vector include_metadata r =
     \<lparr>match_id = vec_id r, match_score = metric s vector (vec_values r),
      match_metadata = (if include_metadata then vec_metadata r else [])\<rparr>"

text \<open>
  Modelled from the spec: \<open>index.query\<close> of the Vector Store, "query(vector, top_k,
  includeMetadata) -> ordered list of (id, score, metadata) by descending similarity".
  Records of equal score keep their order in the store.
\<close>

definition store_query :: "'v store \<Rightarrow> 'v \<Rightarrow> nat \<Rightarrow> bool \<Rightarrow> error + qmatch list" where
  "store_query s vector top_k include_metadata =
     Inr (take top_k (sort_key (\<lambda>m. - match_score m)
            (map (to_match s vector include_metadata) (records s))))"

text \<open>Modelled from the spec: the index object of the Vector Store, with its two methods.\<close>

definition store_client :: "('v store, 'v) index_client" where
  "store_client = \<lparr>upsert = store_upsert, query = store_query\<rparr>"

text \<open>
  A recording index: it keeps every batch handed to \<open>upsert\<close>, in order, and answers
  no query. It observes which upserts a run issues.
\<close>

definition recording_client :: "('v vrecord list list, 'v) index_client" where
  "recording_client = \<lparr>upsert = (\<lambda>calls batch. (None, calls @ [batch])), query = (\<lambda>calls v k m. Inr [])\<rparr>"

section \<open>Notions used in the statements\<close>

text \<open>
  The metadata dict that the loop builds from a weather dict; the cities of an
  enumeration whose fetch returned a weather dict, with their positions; and the
  record that the loop upserts for one of them.
\<close>

definition weather_metadata :: "weather_info \<Rightarrow> (string \<times> json) list" where
  "weather_metadata info = [(''temperature'', temperature info), (''wind_speed'', wind_speed info)]"

fun fetched :: "world \<Rightarrow> (nat \<times> string \<times> real \<times> real) list \<Rightarrow> (nat \<times> string \<times> weather_info) list" where
  "fetched w [] = []"
| "fetched w ((i, city, lat, lon) # rest) =
     (case get_current_weather w city lat lon of
        Inr (Some info) \<Rightarrow> (i, city, info) # fetched w rest
      | _ \<Rightarrow> fetched w rest)"

definition to_record :: "'v list \<Rightarrow> nat \<times> string \<times> weather_info \<Rightarrow> 'v vrecord" where
  "to_record embs x = (case x of (i, city, info) \<Rightarrow>
     \<lparr>vec_id = city, vec_values = embs ! i, vec_metadata = weather_metadata info\<rparr>)"

text \<open>
  The ingestion with one embedding call per city name, which the specification names as
  an equally valid substitute for the batch call: the vector of a city is the only row
  of \<open>encode([city])\<close>.
\<close>

fun ingest_loop_per_name ::
  "world \<Rightarrow> (string list \<Rightarrow> 'v list) \<Rightarrow> ('ix, 'v) index_client \<Rightarrow> (string \<times> real \<times> real) list \<Rightarrow>
   (string \<rightharpoonup> weather_info) \<Rightarrow> 'ix \<Rightarrow> (error + (string \<rightharpoonup> weather_info)) \<times> 'ix" where
  "ingest_loop_per_name w embedding_model client [] weather_data index = (Inr weather_data, index)"
| "ingest_loop_per_name w embedding_model client ((city, lat, lon) # rest) weather_data index =
     (case get_current_weather w city lat lon of
        Inl e \<Rightarrow> (Inl e, index)
      | Inr weather \<Rightarrow>
          if truthy weather then
            (case weather of
               None \<Rightarrow> ingest_loop_per_name w embedding_model client rest weather_data index
             | Some info \<Rightarrow>
                 (case index_at (embedding_model [city]) 0 of
                    Inl e \<Rightarrow> (Inl e, index)
                  | Inr v \<Rightarrow>
                      (case upsert client index
                              [\<lparr>vec_id = city, vec_values = v,
                                vec_metadata = [(''temperature'', temperature info),
                                                (''wind_speed'', wind_speed info)]\<rparr>] of
                         (Some e, index') \<Rightarrow> (Inl e, index')
                       | (None, index') \<Rightarrow>
                           ingest_loop_per_name w embedding_model client rest
                             (weather_data(city \<mapsto> info)) index')))
          else ingest_loop_per_name w embedding_model client rest weather_data index)"

definition fetch_and_store_per_name ::
  "world \<Rightarrow> (string \<times> real \<times> real) list \<Rightarrow> (string list \<Rightarrow> 'v list) \<Rightarrow>
   ('ix, 'v) index_client \<Rightarrow> 'ix \<Rightarrow> (error + (string \<rightharpoonup> weather_info)) \<times> 'ix" where
  "fetch_and_store_per_name w cities embedding_model client index =
     ingest_loop_per_name w embedding_model client cities Map.empty index"

section \<open>Stubs\<close>

text \<open>
  Test doubles in the manner of the scenarios of the specification. The weather service
  answers the coordinates of Madrid with a full body, those of Barcelona with status 200
  and an empty JSON object, and everything else with status 503. A second service
  answers every request with other readings. The embedding of a text is its length; the
  similarity of the store is constant.
\<close>

definition stub_body :: "int \<Rightarrow> int \<Rightarrow> json" where
  "stub_body t ws =
     JObj [(''current_weather'', JObj [(''temperature'', JInt t), (''windspeed'', JInt ws)])]"

definition stub_world :: world where
  "stub_world =
     \<lparr>environ_WEATHER_URL = Some ''https://weather.invalid/v1/forecast'',
      requests_get = (\<lambda>url p.
        if param_latitude p = 40.42 then
          Inr \<lparr>status_code = 200, response_json = Some (stub_body 15 10)\<rparr>
        else if param_latitude p = 41.39 then
          Inr \<lparr>status_code = 200, response_json = Some (JObj [])\<rparr>
        else Inr \<lparr>status_code = 503, response_json = None\<rparr>)\<rparr>"

definition stub_world_later :: world where
  "stub_world_later =
     \<lparr>environ_WEATHER_URL = Some ''https://weather.invalid/v1/forecast'',
      requests_get = (\<lambda>url p. Inr \<lparr>status_code = 200, response_json = Some (stub_body 21 4)\<rparr>)\<rparr>"

definition stub_cities :: "(string \<times> real \<times> real) list" where
  "stub_cities = [(''Madrid'', 40.42, - 3.70), (''Barcelona'', 41.39, 2.16), (''Bilbao'', 43.26, - 2.93)]"

definition stub_encode :: "string list \<Rightarrow> nat list" where
  "stub_encode texts = map length texts"

definition stub_store :: "real \<Rightarrow> nat store" where
  "stub_store score = \<lparr>metric = (\<lambda>q v. score), records = []\<rparr>"

definition stub_index :: "real \<Rightarrow> nat store" where
  "stub_index score = \<lparr>metric = (\<lambda>q v. score),
     records = [\<lparr>vec_id = ''Madrid'', vec_values = 6,
                 vec_metadata = [(''temperature'', JInt 15), (''wind_speed'', JInt 10)]\<rparr>]\<rparr>"

definition stub_repr :: "json \<Rightarrow> string" where
  "stub_repr v = ''?''"

section \<open>Properties of the ingestion loop\<close>

lemma ingest_loop_closed:
  assumes "\<forall>(i, c, la, lo) \<in> set items. (\<exists>r. get_current_weather w c la lo = Inr r) \<and> i < length embs"
    and "\<And>ix b. fst (upsert client ix b) = None"
  shows "ingest_loop w embs client items wd ix =
    (Inr (wd ++ map_of (rev (map snd (fetched w items)))),
     foldl (\<lambda>s x. snd (upsert client s [to_record embs x])) ix (fetched w items))"
  using assms(1)
proof (induction items arbitrary: wd ix)
  case Nil
  then show ?case by simp
next
  case (Cons item items)
  obtain i c la lo where item: "item = (i, c, la, lo)" by (cases item) auto
  from Cons.prems item obtain r where r: "get_current_weather w c la lo = Inr r" and i: "i < length embs"
    by auto
  have rest: "\<forall>(i, c, la, lo) \<in> set items. (\<exists>r. get_current_weather w c la lo = Inr r) \<and> i < length embs"
    using Cons.prems by simp
  show ?case
  proof (cases r)
    case None
    then show ?thesis using r item Cons.IH[OF rest] by simp
  next
    case (Some info)
    obtain e ix' where u: "upsert client ix [to_record embs (i, c, info)] = (e, ix')"
      by (cases "upsert client ix [to_record embs (i, c, info)]") auto
    with assms(2)[of ix "[to_record embs (i, c, info)]"] have e: "e = None" by simp
    have step: "ingest_loop w embs client (item # items) wd ix =
        ingest_loop w embs client items (wd(c \<mapsto> info)) ix'"
      using r item Some i u e by (simp add: index_at_def to_record_def weather_metadata_def)
    have f: "fetched w (item # items) = (i, c, info) # fetched w items"
      using r item Some by simp
    have m: "wd(c \<mapsto> info) ++ map_of (rev (map snd (fetched w items))) =
             wd ++ map_of (rev (map snd ((i, c, info) # fetched w items)))"
      by (simp add: map_add_upd_left)
    show ?thesis
      unfolding step f Cons.IH[OF rest, of "wd(c \<mapsto> info)" ix'] m
      using u by simp
  qed
qed

lemma fetched_set:
  "(i, c, info) \<in> set (fetched w items) \<longleftrightarrow>
   (\<exists>la lo. (i, c, la, lo) \<in> set items \<and> get_current_weather w c la lo = Inr (Some info))"
  by (induction w items rule: fetched.induct) (auto split: sum.splits option.splits)

lemma fetched_city:
  assumes "x \<in> set (fetched w items)"
  shows "fst (snd x) \<in> set (map (\<lambda>x. fst (snd x)) items)"
proof -
  obtain i c info where x: "x = (i, c, info)" by (cases x) auto
  with assms fetched_set[of i c info w items] obtain la lo where "(i, c, la, lo) \<in> set items"
    by auto
  then have "(\<lambda>x. fst (snd x)) (i, c, la, lo) \<in> set (map (\<lambda>x. fst (snd x)) items)"
    by (simp only: set_map) (rule imageI)
  then show ?thesis using x by simp
qed

lemma fetched_distinct:
  "distinct (map (\<lambda>x. fst (snd x)) items) \<Longrightarrow> distinct (map (\<lambda>x. fst (snd x)) (fetched w items))"
proof (induction items)
  case Nil
  then show ?case by simp
next
  case (Cons item items)
  obtain i c la lo where item: "item = (i, c, la, lo)" by (cases item) auto
  have d: "distinct (map (\<lambda>x. fst (snd x)) (fetched w items))"
    using Cons.IH Cons.prems by simp
  have fresh: "c \<notin> set (map (\<lambda>x. fst (snd x)) items)" using Cons.prems item by simp
  have "c \<notin> set (map (\<lambda>x. fst (snd x)) (fetched w items))"
  proof
    assume "c \<in> set (map (\<lambda>x. fst (snd x)) (fetched w items))"
    then obtain x where "x \<in> set (fetched w items)" "fst (snd x) = c" by auto
    with fetched_city[of x w items] fresh show False by simp
  qed
  with d show ?case using item by (simp split: sum.splits option.splits)
qed

lemma upsert1_metric: "metric (foldl upsert1 s rs) = metric s"
  by (induction rs arbitrary: s) (simp_all add: upsert1_def)

lemma upsert1_other:
  "c \<notin> vec_id ` set rs \<Longrightarrow>
   filter (\<lambda>x. vec_id x = c) (records (foldl upsert1 s rs)) = filter (\<lambda>x. vec_id x = c) (records s)"
proof (induction rs arbitrary: s)
  case Nil
  then show ?case by simp
next
  case (Cons r rs)
  have "filter (\<lambda>x. vec_id x = c) (records (upsert1 s r)) = filter (\<lambda>x. vec_id x = c) (records s)"
    using Cons.prems by (auto simp: upsert1_def intro: filter_cong)
  then show ?case using Cons by simp
qed

lemma upsert1_stored:
  "r \<in> set rs \<Longrightarrow> distinct (map vec_id rs) \<Longrightarrow>
   filter (\<lambda>x. vec_id x = vec_id r) (records (foldl upsert1 s rs)) = [r]"
proof (induction rs arbitrary: s)
  case Nil
  then show ?case by simp
next
  case (Cons a rs)
  show ?case
  proof (cases "r = a")
    case True
    have "vec_id a \<notin> vec_id ` set rs" using Cons.prems by auto
    then have "filter (\<lambda>x. vec_id x = vec_id a) (records (foldl upsert1 (upsert1 s a) rs)) =
               filter (\<lambda>x. vec_id x = vec_id a) (records (upsert1 s a))"
      by (rule upsert1_other)
    also have "\<dots> = [a]" by (simp add: upsert1_def)
    finally show ?thesis using True by simp
  next
    case False
    then show ?thesis using Cons by simp
  qed
qed

lemma store_fold:
  "foldl (\<lambda>s x. snd (upsert store_client s [f x])) s xs = foldl upsert1 s (map f xs)"
  by (induction xs arbitrary: s) (simp_all add: store_client_def store_upsert_def)

lemma recording_fold:
  "foldl (\<lambda>s x. snd (upsert recording_client s [f x])) calls xs = calls @ map (\<lambda>x. [f x]) xs"
  by (induction xs arbitrary: calls) (simp_all add: recording_client_def)

lemma enumerate_no_raise:
  assumes "\<forall>(c, la, lo) \<in> set cities. \<exists>r. get_current_weather w c la lo = Inr r"
    and "length cities \<le> length embs"
  shows "\<forall>(i, c, la, lo) \<in> set (enumerate 0 cities).
           (\<exists>r. get_current_weather w c la lo = Inr r) \<and> i < length embs"
proof (clarify)
  fix i c la lo
  assume "(i, c, la, lo) \<in> set (enumerate 0 cities)"
  then have i: "i < length cities" and c: "cities ! i = (c, la, lo)"
    by (simp_all add: in_set_enumerate_eq)
  then have "(c, la, lo) \<in> set cities" by (metis nth_mem)
  with assms(1) have "\<exists>r. get_current_weather w c la lo = Inr r" by auto
  with i assms(2) show "(\<exists>r. get_current_weather w c la lo = Inr r) \<and> i < length embs" by simp
qed

lemma enumerate_member:
  assumes "(c, la, lo) \<in> set cities"
  shows "\<exists>i < length cities. (i, c, la, lo) \<in> set (enumerate 0 cities)"
proof -
  from assms obtain i where "i < length cities" "cities ! i = (c, la, lo)"
    by (auto simp: in_set_conv_nth)
  then have "i < length cities \<and> (i, c, la, lo) \<in> set (enumerate 0 cities)"
    by (simp add: in_set_enumerate_eq)
  then show ?thesis by blast
qed

lemma enumerate_cities: "map (\<lambda>x. fst (snd x)) (enumerate n cities) = map fst cities"
  by (induction cities arbitrary: n) simp_all

lemma vec_id_to_record: "vec_id (to_record embs x) = fst (snd x)"
  by (cases x) (simp add: to_record_def)

lemma run_closed:
  assumes "\<forall>(c, la, lo) \<in> set cities. \<exists>r. get_current_weather w c la lo = Inr r"
    and "length cities \<le> length (embedding_model (map fst cities))"
    and "\<And>ix b. fst (upsert client ix b) = None"
  shows "fetch_and_store_weather_data w cities embedding_model client ix =
    (Inr (map_of (rev (map snd (fetched w (enumerate 0 cities))))),
     foldl (\<lambda>s x. snd (upsert client s [to_record (embedding_model (map fst cities)) x])) ix
       (fetched w (enumerate 0 cities)))"
  unfolding fetch_and_store_weather_data_def Let_def
  using ingest_loop_closed[OF enumerate_no_raise[OF assms(1,2)] assms(3), of Map.empty ix]
  by simp

lemma fetched_success:
  assumes "(c, la, lo) \<in> set cities" and "get_current_weather w c la lo = Inr (Some info)"
  shows "\<exists>i < length cities. cities ! i = (c, la, lo) \<and> (i, c, info) \<in> set (fetched w (enumerate 0 cities))"
proof -
  from enumerate_member[OF assms(1)] obtain i where i: "i < length cities"
    and m: "(i, c, la, lo) \<in> set (enumerate 0 cities)" by blast
  from m have "cities ! i = (c, la, lo)" by (simp add: in_set_enumerate_eq)
  moreover from m assms(2) have "(i, c, info) \<in> set (fetched w (enumerate 0 cities))"
    unfolding fetched_set by blast
  ultimately show ?thesis using i by blast
qed

lemma fetched_failure:
  assumes "\<forall>la lo info. (c, la, lo) \<in> set cities \<longrightarrow> get_current_weather w c la lo \<noteq> Inr (Some info)"
  shows "c \<notin> (\<lambda>x. fst (snd x)) ` set (fetched w (enumerate 0 cities))"
proof
  assume "c \<in> (\<lambda>x. fst (snd x)) ` set (fetched w (enumerate 0 cities))"
  then obtain i info where "(i, c, info) \<in> set (fetched w (enumerate 0 cities))" by force
  then obtain la lo where m: "(i, c, la, lo) \<in> set (enumerate 0 cities)"
    and g: "get_current_weather w c la lo = Inr (Some info)"
    unfolding fetched_set by blast
  from m have "i < length cities" "cities ! i = (c, la, lo)" by (simp_all add: in_set_enumerate_eq)
  then have "(c, la, lo) \<in> set cities" by (metis nth_mem)
  with assms g show False by blast
qed

lemma fetched_enumerate_distinct:
  assumes "distinct (map fst cities)"
  shows "distinct (map (\<lambda>x. fst (snd x)) (fetched w (enumerate 0 cities)))"
proof -
  have "map (\<lambda>x. fst (snd x)) (enumerate 0 cities) = map fst cities"
    using enumerate_cities[of 0 cities] by (simp add: comp_def)
  with assms have "distinct (map (\<lambda>x. fst (snd x)) (enumerate 0 cities))" by simp
  then show ?thesis by (rule fetched_distinct)
qed

lemma dict_success:
  assumes "distinct (map fst cities)"
    and "(c, la, lo) \<in> set cities" and "get_current_weather w c la lo = Inr (Some info)"
  shows "map_of (rev (map snd (fetched w (enumerate 0 cities)))) c = Some info"
proof -
  let ?F = "fetched w (enumerate 0 cities)"
  have d: "distinct (map fst (map snd ?F))"
    using fetched_enumerate_distinct[OF assms(1), of w] by (simp add: comp_def)
  from fetched_success[OF assms(2,3)] obtain i where "(i, c, info) \<in> set ?F" by blast
  then have "snd (i, c, info) \<in> set (map snd ?F)" by (simp only: set_map) (rule imageI)
  then have "(c, info) \<in> set (map snd ?F)" by simp
  then have "(c, info) \<in> set (rev (map snd ?F))" by simp
  moreover from d have "distinct (map fst (rev (map snd ?F)))" by (simp add: rev_map[symmetric])
  ultimately show ?thesis by (simp only: map_of_eq_Some_iff)
qed

lemma dict_failure:
  assumes "\<forall>la lo info. (c, la, lo) \<in> set cities \<longrightarrow> get_current_weather w c la lo \<noteq> Inr (Some info)"
  shows "map_of (rev (map snd (fetched w (enumerate 0 cities)))) c = None"
proof -
  have "c \<notin> fst ` set (rev (map snd (fetched w (enumerate 0 cities))))"
    using fetched_failure[OF assms] by (simp add: image_image)
  then show ?thesis by (simp add: map_of_eq_None_iff)
qed

lemma store_success:
  assumes "distinct (map fst cities)"
    and "(c, la, lo) \<in> set cities" and "get_current_weather w c la lo = Inr (Some info)"
  shows "\<exists>i < length cities. cities ! i = (c, la, lo) \<and>
     filter (\<lambda>x. vec_id x = c)
       (records (foldl upsert1 s (map (to_record embs) (fetched w (enumerate 0 cities))))) =
     [\<lparr>vec_id = c, vec_values = embs ! i, vec_metadata = weather_metadata info\<rparr>]"
proof -
  let ?F = "fetched w (enumerate 0 cities)"
  from fetched_success[OF assms(2,3)] obtain i where i: "i < length cities"
    and ci: "cities ! i = (c, la, lo)" and m: "(i, c, info) \<in> set ?F" by blast
  have d: "distinct (map vec_id (map (to_record embs) ?F))"
    using fetched_enumerate_distinct[OF assms(1), of w] by (simp add: comp_def vec_id_to_record)
  from m have r: "to_record embs (i, c, info) \<in> set (map (to_record embs) ?F)"
    by (simp only: set_map) (rule imageI)
  have "filter (\<lambda>x. vec_id x = vec_id (to_record embs (i, c, info)))
          (records (foldl upsert1 s (map (to_record embs) ?F))) = [to_record embs (i, c, info)]"
    using r d by (rule upsert1_stored)
  then have "filter (\<lambda>x. vec_id x = c) (records (foldl upsert1 s (map (to_record embs) ?F))) =
     [\<lparr>vec_id = c, vec_values = embs ! i, vec_metadata = weather_metadata info\<rparr>]"
    by (simp add: to_record_def)
  with i ci show ?thesis by blast
qed

lemma store_failure:
  assumes "\<forall>la lo info. (c, la, lo) \<in> set cities \<longrightarrow> get_current_weather w c la lo \<noteq> Inr (Some info)"
  shows "filter (\<lambda>x. vec_id x = c)
       (records (foldl upsert1 s (map (to_record embs) (fetched w (enumerate 0 cities))))) =
     filter (\<lambda>x. vec_id x = c) (records s)"
proof -
  have "c \<notin> vec_id ` set (map (to_record embs) (fetched w (enumerate 0 cities)))"
    using fetched_failure[OF assms] by (simp add: image_image vec_id_to_record)
  then show ?thesis by (rule upsert1_other)
qed

lemma store_never_raises: "fst (upsert store_client ix b) = None"
  by (simp add: store_client_def store_upsert_def)

lemma recording_never_raises: "fst (upsert recording_client ix b) = None"
  by (simp add: recording_client_def)

lemma one_entry_per_city:
  assumes "distinct (map fst cities)" and "(c, la, lo) \<in> set cities"
    and "get_current_weather w c la lo = Inr None"
  shows "\<forall>la' lo' info. (c, la', lo') \<in> set cities \<longrightarrow>
           get_current_weather w c la' lo' \<noteq> Inr (Some info)"
proof (intro allI impI)
  fix la' lo' info
  assume "(c, la', lo') \<in> set cities"
  with assms(1,2) have "(la, lo) = (la', lo')" by (rule eq_key_imp_eq_value)
  with assms(3) show "get_current_weather w c la' lo' \<noteq> Inr (Some info)" by simp
qed

lemma run_store_closed:
  assumes "\<forall>(c, la, lo) \<in> set cities. \<exists>r. get_current_weather w c la lo = Inr r"
    and "length cities \<le> length (embedding_model (map fst cities))"
  shows "fetch_and_store_weather_data w cities embedding_model store_client s =
    (Inr (map_of (rev (map snd (fetched w (enumerate 0 cities))))),
     foldl upsert1 s (map (to_record (embedding_model (map fst cities)))
       (fetched w (enumerate 0 cities))))"
proof -
  have "\<And>ix b. fst (upsert store_client (ix :: 'a store) b) = None"
    by (rule store_never_raises)
  from run_closed[where w = w and cities = cities and embedding_model = embedding_model
      and client = store_client and ix = s, OF assms this]
  show ?thesis by (simp only: store_fold)
qed

lemma run_recording_closed:
  assumes "\<forall>(c, la, lo) \<in> set cities. \<exists>r. get_current_weather w c la lo = Inr r"
    and "length cities \<le> length (embedding_model (map fst cities))"
  shows "fetch_and_store_weather_data w cities embedding_model recording_client calls =
    (Inr (map_of (rev (map snd (fetched w (enumerate 0 cities))))),
     calls @ map (\<lambda>x. [to_record (embedding_model (map fst cities)) x])
       (fetched w (enumerate 0 cities)))"
proof -
  have "\<And>ix b. fst (upsert recording_client (ix :: 'a vrecord list list) b) = None"
    by (rule recording_never_raises)
  from run_closed[where w = w and cities = cities and embedding_model = embedding_model
      and client = recording_client and ix = calls, OF assms this]
  show ?thesis by (simp only: recording_fold)
qed

lemma ingest_loop_per_name_eq:
  assumes "\<And>names. embedding_model names = map vector_of names"
  shows "ingest_loop w (pre @ map vector_of (map fst cities)) client
           (enumerate (length pre) cities) wd ix =
         ingest_loop_per_name w embedding_model client cities wd ix"
proof (induction cities arbitrary: pre wd ix)
  case Nil
  then show ?case by simp
next
  case (Cons city cities)
  obtain c la lo where city: "city = (c, la, lo)" by (cases city) auto
  let ?embs = "pre @ map vector_of (map fst (city # cities))"
  have embs: "?embs = (pre @ [vector_of c]) @ map vector_of (map fst cities)"
    using city by simp
  have at: "index_at ?embs (length pre) = Inr (vector_of c)"
    using city by (simp add: index_at_def nth_append)
  have single: "index_at (embedding_model [c]) 0 = Inr (vector_of c)"
    by (simp add: assms index_at_def)
  have rest: "\<And>wd ix. ingest_loop w ?embs client (enumerate (Suc (length pre)) cities) wd ix =
      ingest_loop_per_name w embedding_model client cities wd ix"
    using Cons.IH[of "pre @ [vector_of c]"] unfolding embs by simp
  have en: "enumerate (length pre) (city # cities) =
      (length pre, c, la, lo) # enumerate (Suc (length pre)) cities"
    using city by simp
  show ?case
    unfolding en unfolding city ingest_loop.simps ingest_loop_per_name.simps
    using at single rest unfolding city
    by (simp split: sum.splits option.splits prod.splits)
qed

lemma recorded_batch:
  assumes "batch \<in> set (map (\<lambda>x. [to_record embs x]) (fetched w (enumerate 0 cities)))"
  shows "\<exists>i c la lo info. i < length cities \<and> cities ! i = (c, la, lo)
     \<and> get_current_weather w c la lo = Inr (Some info)
     \<and> batch = [\<lparr>vec_id = c, vec_values = embs ! i, vec_metadata = weather_metadata info\<rparr>]"
proof -
  from assms obtain x where x: "x \<in> set (fetched w (enumerate 0 cities))"
    and b: "batch = [to_record embs x]" by auto
  obtain i c info where xe: "x = (i, c, info)" by (cases x) auto
  from x xe have "(i, c, info) \<in> set (fetched w (enumerate 0 cities))" by simp
  then obtain la lo where m: "(i, c, la, lo) \<in> set (enumerate 0 cities)"
    and g: "get_current_weather w c la lo = Inr (Some info)"
    unfolding fetched_set by blast
  from m have "i < length cities" "cities ! i = (c, la, lo)"
    by (simp_all add: in_set_enumerate_eq)
  moreover have "batch = [\<lparr>vec_id = c, vec_values = embs ! i, vec_metadata = weather_metadata info\<rparr>]"
    using b xe by (simp add: to_record_def)
  ultimately show ?thesis using g by blast
qed

section \<open>Properties of the messages\<close>

lemma float_0_3_bounds: "29999999999999998 / 10 ^ 17 < float_0_3 \<and> float_0_3 < 3 / 10"
  by (simp add: float_0_3_def)

lemma str_contains_mid: "str_contains (a @ s @ b) s"
  unfolding str_contains_def sublist_def by blast

lemma weather_message_contains:
  "str_contains (weather_message repr c t ws) c"
  "str_contains (weather_message repr c t ws) (py_str repr t)"
  "str_contains (weather_message repr c t ws) (py_str repr ws)"
  unfolding weather_message_def str_contains_def sublist_def
    apply (rule exI[of _ "''Today's weather in ''"], rule exI, simp)
   apply (rule exI[of _ "''Today's weather in '' @ c @ '':\<newline>- Temperature: ''"], rule exI, simp)
  apply (rule exI[of _ "''Today's weather in '' @ c @ '':\<newline>- Temperature: '' @ py_str repr t @
     [CHR 0xC3, CHR 0x82, CHR 0xC2, CHR 0xB0] @ ''C\<newline>- Wind speed: ''"], rule exI[of _ "'' km/h''"], simp)
  done

lemma low_confidence_contains: "str_contains (low_confidence_message c) c"
  unfolding low_confidence_message_def str_contains_def sublist_def
  by (rule exI[of _ "''I found a possible match for '' @ [CHR 0x27]"], rule exI, simp)

section \<open>The stubs evaluated\<close>

lemma stub_requests:
  "requests_get stub_world (environ_WEATHER_URL stub_world)
     \<lparr>param_latitude = 40.42, param_longitude = - 3.70, param_current_weather = True\<rparr> =
   Inr \<lparr>status_code = 200, response_json = Some (stub_body 15 10)\<rparr>"
  "requests_get stub_world (environ_WEATHER_URL stub_world)
     \<lparr>param_latitude = 41.39, param_longitude = 2.16, param_current_weather = True\<rparr> =
   Inr \<lparr>status_code = 200, response_json = Some (JObj [])\<rparr>"
  "requests_get stub_world (environ_WEATHER_URL stub_world)
     \<lparr>param_latitude = 43.26, param_longitude = - 2.93, param_current_weather = True\<rparr> =
   Inr \<lparr>status_code = 503, response_json = None\<rparr>"
  by (simp_all add: stub_world_def)

lemma stub_index_query:
  "query store_client (stub_index score) vector 1 True =
     Inr (\<lparr>match_id = ''Madrid'', match_score = score,
           match_metadata = [(''temperature'', JInt 15), (''wind_speed'', JInt 10)]\<rparr> # [])"
  by (simp add: store_client_def store_query_def to_match_def stub_index_def)

lemma stub_encode_single: "stub_encode [text] = length text # []"
  by (simp add: stub_encode_def)

lemma str_int_15_10: "str_int 15 = ''15''" "str_int 10 = ''10''"
  by code_simp+

lemma stub_store_empty: "records (stub_store score) = []"
  by (simp add: stub_store_def)


lemma stub_fetches:
  "get_current_weather stub_world ''Madrid'' 40.42 (- 3.70) =
     Inr (Some \<lparr>temperature = JInt 15, wind_speed = JInt 10\<rparr>)"
  "get_current_weather stub_world ''Barcelona'' 41.39 2.16 =
     Inr (Some \<lparr>temperature = JNull, wind_speed = JNull\<rparr>)"
  "get_current_weather stub_world ''Bilbao'' 43.26 (- 2.93) = Inr None"
  by (simp_all add: get_current_weather_def stub_world_def stub_body_def)

lemma stub_later_fetch:
  "get_current_weather stub_world_later c la lo =
     Inr (Some \<lparr>temperature = JInt 21, wind_speed = JInt 4\<rparr>)"
  by (simp add: get_current_weather_def stub_world_later_def stub_body_def)

lemma stub_cities_distinct: "distinct (map fst stub_cities)"
  by (simp add: stub_cities_def)

lemma stub_no_raise:
  "\<forall>(c, la, lo) \<in> set stub_cities. \<exists>r. get_current_weather stub_world c la lo = Inr r"
  by (simp add: stub_cities_def get_current_weather_def stub_world_def stub_body_def)

lemma stub_later_no_raise:
  "\<forall>(c, la, lo) \<in> set stub_cities. \<exists>r. get_current_weather stub_world_later c la lo = Inr r"
  by (simp add: stub_cities_def stub_later_fetch)

lemma stub_encode_length: "length (stub_encode (map fst stub_cities)) = length stub_cities"
  by (simp add: stub_encode_def)

lemma stub_members:
  "(''Madrid'', 40.42, - 3.70) \<in> set stub_cities"
  "(''Barcelona'', 41.39, 2.16) \<in> set stub_cities"
  "(''Bilbao'', 43.26, - 2.93) \<in> set stub_cities"
  by (simp_all add: stub_cities_def)

lemma stub_encode_contract: "stub_encode names = map length names"
  by (simp add: stub_encode_def)

lemma stub_store_metric: "metric (stub_store score) q v = score"
  by (simp add: stub_store_def)

lemma stub_empty_body:
  "map_of [] ''current_weather'' = (None :: json option)
   \<or> (\<exists>data. map_of [] ''current_weather'' = Some (JObj data)
         \<and> map_of data ''temperature'' = None \<and> map_of data ''windspeed'' = None)"
  by simp

section \<open>The weather fetcher\<close>

text \<open>
  C9. The result of \<open>get_current_weather\<close> does not depend on its \<open>city_name\<close> argument:
  with the same environment, HTTP client, latitude and longitude, two calls that differ
  only in the city name return the same result.
\<close>

theorem get_current_weather_ignores_city_name:
  "get_current_weather w city_name latitude longitude =
   get_current_weather w city_name' latitude longitude"
  by (simp add: get_current_weather_def)

text \<open>
  C5. For every coordinate pair, when the HTTP client returns a response whose status is
  not 200, \<open>get_current_weather\<close> returns \<open>None\<close> and raises nothing. On a 200 response
  whose body is a JSON object, it returns the dict whose \<open>temperature\<close> and \<open>wind_speed\<close>
  are the \<open>temperature\<close> and \<open>windspeed\<close> members of the nested \<open>current_weather\<close> object,
  each \<open>None\<close> when the member is missing, and both \<open>None\<close> when the body has no
  \<open>current_weather\<close> member.
\<close>

theorem get_current_weather_by_status:
  assumes "requests_get w (environ_WEATHER_URL w)
             \<lparr>param_latitude = latitude, param_longitude = longitude,
              param_current_weather = True\<rparr> = Inr response"
  shows "(status_code response \<noteq> 200 \<longrightarrow>
            get_current_weather w city_name latitude longitude = Inr None)
       \<and> (status_code response = 200 \<longrightarrow>
            (\<forall>body. response_json response = Some (JObj body) \<longrightarrow>
               (map_of body ''current_weather'' = None \<longrightarrow>
                  get_current_weather w city_name latitude longitude =
                    Inr (Some \<lparr>temperature = JNull, wind_speed = JNull\<rparr>))
             \<and> (\<forall>data. map_of body ''current_weather'' = Some (JObj data) \<longrightarrow>
                  get_current_weather w city_name latitude longitude =
                    Inr (Some \<lparr>temperature = get_or_None data ''temperature'',
                               wind_speed = get_or_None data ''windspeed''\<rparr>))))"
  using assms by (simp add: get_current_weather_def get_or_None_def)

theorem get_current_weather_by_status_witness:
  "get_current_weather stub_world ''Madrid'' 40.42 (- 3.70) =
     Inr (Some \<lparr>temperature = JInt 15, wind_speed = JInt 10\<rparr>)
   \<and> get_current_weather stub_world ''Barcelona'' 41.39 2.16 =
     Inr (Some \<lparr>temperature = JNull, wind_speed = JNull\<rparr>)
   \<and> get_current_weather stub_world ''Bilbao'' 43.26 (- 2.93) = Inr None"
  using get_current_weather_by_status [OF stub_requests(1), of "''Madrid''"]
    get_current_weather_by_status [OF stub_requests(2), of "''Barcelona''"]
    get_current_weather_by_status [OF stub_requests(3), of "''Bilbao''"]
  by (simp add: stub_body_def get_or_None_def)

text \<open>
  Outside that shape a 200 response makes the function raise: \<open>response.json()\<close> on a
  body that is no JSON document, and the attribute lookup \<open>.get\<close> on a \<open>current_weather\<close>
  member that is \<open>null\<close>.
\<close>

lemma get_current_weather_malformed_body:
  assumes "requests_get w (environ_WEATHER_URL w)
             \<lparr>param_latitude = latitude, param_longitude = longitude,
              param_current_weather = True\<rparr> = Inr response"
    and "status_code response = 200"
  shows "(response_json response = None \<longrightarrow>
            get_current_weather w city_name latitude longitude = Inl JSONDecodeError)
       \<and> (\<forall>body. response_json response = Some (JObj body) \<longrightarrow>
            map_of body ''current_weather'' = Some JNull \<longrightarrow>
            get_current_weather w city_name latitude longitude = Inl AttributeError)"
  using assms by (simp add: get_current_weather_def)

section \<open>The query workflow\<close>

text \<open>
  C3. For every prompt and every index whose top-1 query returns a match: when the score
  of the match is below the float \<open>0.3\<close>, \<open>query_weather\<close> returns the clarification
  message, which names the matched city; otherwise it returns the formatted weather
  string, which contains the city name, the temperature and the wind speed of the match.
  A score of 0.29 gives the clarification message and a score of 0.31 the weather string.
\<close>

theorem query_weather_confidence_gate:
  assumes "embedding_model [prompt] = vector # vs"
    and "query client index vector 1 True = Inr (best_match # others)"
  shows "(match_score best_match < float_0_3 \<longrightarrow>
            query_weather repr prompt embedding_model client index =
              Inr (low_confidence_message (match_id best_match)))
       \<and> (\<not> match_score best_match < float_0_3 \<longrightarrow>
            query_weather repr prompt embedding_model client index =
              Inr (weather_message repr (match_id best_match)
                    (get_or_None (match_metadata best_match) ''temperature'')
                    (get_or_None (match_metadata best_match) ''wind_speed'')))
       \<and> (match_score best_match = 0.29 \<longrightarrow>
            query_weather repr prompt embedding_model client index =
              Inr (low_confidence_message (match_id best_match)))
       \<and> (match_score best_match = 0.31 \<longrightarrow>
            query_weather repr prompt embedding_model client index =
              Inr (weather_message repr (match_id best_match)
                    (get_or_None (match_metadata best_match) ''temperature'')
                    (get_or_None (match_metadata best_match) ''wind_speed'')))
       \<and> str_contains (low_confidence_message (match_id best_match)) (match_id best_match)
       \<and> str_contains (weather_message repr (match_id best_match)
                    (get_or_None (match_metadata best_match) ''temperature'')
                    (get_or_None (match_metadata best_match) ''wind_speed''))
            (match_id best_match)
       \<and> str_contains (weather_message repr (match_id best_match)
                    (get_or_None (match_metadata best_match) ''temperature'')
                    (get_or_None (match_metadata best_match) ''wind_speed''))
            (py_str repr (get_or_None (match_metadata best_match) ''temperature''))
       \<and> str_contains (weather_message repr (match_id best_match)
                    (get_or_None (match_metadata best_match) ''temperature'')
                    (get_or_None (match_metadata best_match) ''wind_speed''))
            (py_str repr (get_or_None (match_metadata best_match) ''wind_speed''))"
proof -
  have low: "match_score best_match < float_0_3 \<Longrightarrow>
      query_weather repr prompt embedding_model client index =
        Inr (low_confidence_message (match_id best_match))"
    using assms by (simp add: query_weather_def index_at_def)
  have high: "\<not> match_score best_match < float_0_3 \<Longrightarrow>
      query_weather repr prompt embedding_model client index =
        Inr (weather_message repr (match_id best_match)
              (get_or_None (match_metadata best_match) ''temperature'')
              (get_or_None (match_metadata best_match) ''wind_speed''))"
    using assms by (simp add: query_weather_def index_at_def)
  have a: "(0.29 :: real) < float_0_3" by (simp add: float_0_3_def)
  have b: "\<not> (0.31 :: real) < float_0_3" by (simp add: float_0_3_def)
  show ?thesis
    using low high a b low_confidence_contains weather_message_contains by metis
qed

theorem query_weather_confidence_gate_witness:
  "query_weather stub_repr ''weather in madrid'' stub_encode store_client (stub_index 0.31) =
     Inr (''Today's weather in Madrid:\<newline>- Temperature: 15'' @
          [CHR 0xC3, CHR 0x82, CHR 0xC2, CHR 0xB0] @ ''C\<newline>- Wind speed: 10 km/h'')
   \<and> query_weather stub_repr ''weather in madrid'' stub_encode store_client (stub_index 0.29) =
     Inr (''I found a possible match for '' @ [CHR 0x27] @ ''Madrid'' @ [CHR 0x27] @
          '', but I'm not very confident. Could you be more specific?'')"
  using query_weather_confidence_gate [where embedding_model = stub_encode
        and prompt = "''weather in madrid''" and client = store_client
        and index = "stub_index 0.31" and repr = stub_repr,
        OF stub_encode_single stub_index_query]
    query_weather_confidence_gate [where embedding_model = stub_encode
        and prompt = "''weather in madrid''" and client = store_client
        and index = "stub_index 0.29" and repr = stub_repr,
        OF stub_encode_single stub_index_query]
  by (simp add: weather_message_def low_confidence_message_def get_or_None_def str_int_15_10
      float_0_3_def)

text \<open>
  C4. For every prompt, when the top-1 query returns an empty list of matches, and in
  particular when the store holds no record, \<open>query_weather\<close> returns the fixed not-found
  message, letter for letter, and raises nothing.
\<close>

theorem query_weather_no_match:
  assumes "embedding_model [prompt] = vector # vs"
  shows "(query client index vector 1 True = Inr [] \<longrightarrow>
            query_weather repr prompt embedding_model client index =
              Inr ''Sorry, I couldn't find weather information for any city in your query.'')
       \<and> (records s = [] \<longrightarrow>
            query_weather repr prompt embedding_model store_client s =
              Inr ''Sorry, I couldn't find weather information for any city in your query.'')"
  using assms
  by (simp add: query_weather_def index_at_def not_found_message_def store_client_def
      store_query_def)

theorem query_weather_no_match_witness:
  "query_weather stub_repr ''weather in madrid'' stub_encode store_client (stub_store 0.9) =
     Inr ''Sorry, I couldn't find weather information for any city in your query.''"
  using query_weather_no_match [where embedding_model = stub_encode
        and prompt = "''weather in madrid''" and client = store_client
        and index = "stub_store 0.9" and s = "stub_store 0.9" and repr = stub_repr,
        OF stub_encode_single]
    stub_store_empty [of "0.9"]
  by simp

section \<open>The ingestion workflow\<close>

text \<open>
  The statements below are about a run in which no weather fetch raises (each returns a
  weather dict or \<open>None\<close>) and the embedding model returns one vector per city name; the
  city mapping is a dict, so its keys are distinct.
\<close>

text \<open>
  C1. For every city mapping, the run returns a dict whose keys are exactly the cities
  whose weather fetch succeeded; each such city is bound to the fetched temperature and
  wind speed, a record with the city name as id and that temperature and wind speed as
  metadata is handed to \<open>upsert\<close>, and the store of the specification afterwards holds
  a record with that id and metadata.
\<close>

theorem ingestion_stores_fetched_weather:
  assumes "distinct (map fst cities)"
    and "\<forall>(c, la, lo) \<in> set cities. \<exists>r. get_current_weather w c la lo = Inr r"
    and "length (embedding_model (map fst cities)) = length cities"
  shows "\<exists>weather_data index' calls.
      fetch_and_store_weather_data w cities embedding_model store_client index =
        (Inr weather_data, index')
    \<and> fetch_and_store_weather_data w cities embedding_model recording_client [] =
        (Inr weather_data, calls)
    \<and> dom weather_data =
        {c. \<exists>la lo info. (c, la, lo) \<in> set cities \<and>
              get_current_weather w c la lo = Inr (Some info)}
    \<and> (\<forall>(c, la, lo) \<in> set cities. \<forall>info.
          get_current_weather w c la lo = Inr (Some info) \<longrightarrow>
            weather_data c = Some info
          \<and> (\<exists>v. [\<lparr>vec_id = c, vec_values = v,
                     vec_metadata = [(''temperature'', temperature info),
                                     (''wind_speed'', wind_speed info)]\<rparr>] \<in> set calls)
          \<and> (\<exists>r \<in> set (records index'). vec_id r = c
                \<and> vec_metadata r = [(''temperature'', temperature info),
                                     (''wind_speed'', wind_speed info)]))"
proof -
  let ?embs = "embedding_model (map fst cities)"
  let ?F = "fetched w (enumerate 0 cities)"
  let ?wd = "map_of (rev (map snd ?F))"
  let ?ix = "foldl upsert1 index (map (to_record ?embs) ?F)"
  let ?calls = "map (\<lambda>x. [to_record ?embs x]) ?F"
  have len: "length cities \<le> length ?embs" using assms(3) by simp
  have run: "fetch_and_store_weather_data w cities embedding_model store_client index =
      (Inr ?wd, ?ix)"
    using assms(2) len by (rule run_store_closed)
  have rec: "fetch_and_store_weather_data w cities embedding_model recording_client [] =
      (Inr ?wd, ?calls)"
    using run_recording_closed[where w = w and cities = cities
        and embedding_model = embedding_model and calls = "[]", OF assms(2) len]
    by simp
  have stored: "?wd c = Some info
          \<and> (\<exists>v. [\<lparr>vec_id = c, vec_values = v,
                     vec_metadata = [(''temperature'', temperature info),
                                     (''wind_speed'', wind_speed info)]\<rparr>] \<in> set ?calls)
          \<and> (\<exists>r \<in> set (records ?ix). vec_id r = c
                \<and> vec_metadata r = [(''temperature'', temperature info),
                                     (''wind_speed'', wind_speed info)])"
    if m: "(c, la, lo) \<in> set cities" and g: "get_current_weather w c la lo = Inr (Some info)"
    for c la lo info
  proof -
    let ?md = "[(''temperature'', temperature info), (''wind_speed'', wind_speed info)]"
    from store_success[OF assms(1) m g, of index ?embs] obtain i where
      f: "filter (\<lambda>x. vec_id x = c) (records ?ix) =
           [\<lparr>vec_id = c, vec_values = ?embs ! i, vec_metadata = weather_metadata info\<rparr>]"
      by blast
    have "\<lparr>vec_id = c, vec_values = ?embs ! i, vec_metadata = weather_metadata info\<rparr>
            \<in> set (filter (\<lambda>x. vec_id x = c) (records ?ix))"
      unfolding f by simp
    then have "\<lparr>vec_id = c, vec_values = ?embs ! i, vec_metadata = weather_metadata info\<rparr>
            \<in> set (records ?ix)" by simp
    then have a: "\<exists>r \<in> set (records ?ix). vec_id r = c \<and> vec_metadata r = ?md"
      by (rule bexI[rotated]) (simp add: weather_metadata_def)
    from fetched_success[OF m g] obtain j where "(j, c, info) \<in> set ?F" by blast
    then have "(\<lambda>x. [to_record ?embs x]) (j, c, info) \<in> set ?calls"
      by (simp only: set_map) (rule imageI)
    then have "[\<lparr>vec_id = c, vec_values = ?embs ! j, vec_metadata = ?md\<rparr>] \<in> set ?calls"
      by (simp add: to_record_def weather_metadata_def)
    then have b: "\<exists>v. [\<lparr>vec_id = c, vec_values = v, vec_metadata = ?md\<rparr>] \<in> set ?calls"
      by (intro exI[of _ "?embs ! j"])
    from dict_success[OF assms(1) m g] a b show ?thesis by blast
  qed
  then have all: "\<forall>(c, la, lo) \<in> set cities. \<forall>info.
          get_current_weather w c la lo = Inr (Some info) \<longrightarrow>
            ?wd c = Some info
          \<and> (\<exists>v. [\<lparr>vec_id = c, vec_values = v,
                     vec_metadata = [(''temperature'', temperature info),
                                     (''wind_speed'', wind_speed info)]\<rparr>] \<in> set ?calls)
          \<and> (\<exists>r \<in> set (records ?ix). vec_id r = c
                \<and> vec_metadata r = [(''temperature'', temperature info),
                                     (''wind_speed'', wind_speed info)])"
    by blast
  have dom: "dom ?wd = {c. \<exists>la lo info. (c, la, lo) \<in> set cities \<and>
              get_current_weather w c la lo = Inr (Some info)}"
  proof (intro set_eqI iffI)
    fix c
    assume "c \<in> dom ?wd"
    then have "?wd c \<noteq> None" by auto
    with dict_failure[of c cities w] show "c \<in> {c. \<exists>la lo info. (c, la, lo) \<in> set cities \<and>
              get_current_weather w c la lo = Inr (Some info)}" by blast
  next
    fix c
    assume "c \<in> {c. \<exists>la lo info. (c, la, lo) \<in> set cities \<and>
              get_current_weather w c la lo = Inr (Some info)}"
    then obtain la lo info where "(c, la, lo) \<in> set cities"
      "get_current_weather w c la lo = Inr (Some info)" by blast
    from dict_success[OF assms(1) this] show "c \<in> dom ?wd" by blast
  qed
  show ?thesis
    using run rec dom all by (intro exI[of _ ?wd] exI[of _ ?ix] exI[of _ ?calls] conjI)
qed

theorem ingestion_stores_fetched_weather_witness:
  "\<exists>weather_data index' calls.
      fetch_and_store_weather_data stub_world stub_cities stub_encode store_client
        (stub_store 0.9) = (Inr weather_data, index')
    \<and> fetch_and_store_weather_data stub_world stub_cities stub_encode recording_client [] =
        (Inr weather_data, calls)
    \<and> weather_data ''Madrid'' = Some \<lparr>temperature = JInt 15, wind_speed = JInt 10\<rparr>
    \<and> (\<exists>v. [\<lparr>vec_id = ''Madrid'', vec_values = v,
               vec_metadata = [(''temperature'', JInt 15), (''wind_speed'', JInt 10)]\<rparr>]
            \<in> set calls)
    \<and> (\<exists>r \<in> set (records index'). vec_id r = ''Madrid''
          \<and> vec_metadata r = [(''temperature'', JInt 15), (''wind_speed'', JInt 10)])"
proof -
  let ?info = "\<lparr>temperature = JInt 15, wind_speed = JInt 10\<rparr>"
  from ingestion_stores_fetched_weather
    [where w = stub_world and cities = stub_cities and embedding_model = stub_encode
      and index = "stub_store 0.9", OF stub_cities_distinct stub_no_raise stub_encode_length]
  obtain weather_data index' calls where
    run: "fetch_and_store_weather_data stub_world stub_cities stub_encode store_client
        (stub_store 0.9) = (Inr weather_data, index')"
    and rec: "fetch_and_store_weather_data stub_world stub_cities stub_encode recording_client [] =
        (Inr weather_data, calls)"
    and each: "\<forall>(c, la, lo) \<in> set stub_cities. \<forall>info.
          get_current_weather stub_world c la lo = Inr (Some info) \<longrightarrow>
            weather_data c = Some info
          \<and> (\<exists>v. [\<lparr>vec_id = c, vec_values = v,
                     vec_metadata = [(''temperature'', temperature info),
                                     (''wind_speed'', wind_speed info)]\<rparr>] \<in> set calls)
          \<and> (\<exists>r \<in> set (records index'). vec_id r = c
                \<and> vec_metadata r = [(''temperature'', temperature info),
                                     (''wind_speed'', wind_speed info)])"
    by blast
  from bspec[OF each stub_members(1)]
  have "\<forall>info. get_current_weather stub_world ''Madrid'' 40.42 (- 3.70) = Inr (Some info) \<longrightarrow>
            weather_data ''Madrid'' = Some info
          \<and> (\<exists>v. [\<lparr>vec_id = ''Madrid'', vec_values = v,
                     vec_metadata = [(''temperature'', temperature info),
                                     (''wind_speed'', wind_speed info)]\<rparr>] \<in> set calls)
          \<and> (\<exists>r \<in> set (records index'). vec_id r = ''Madrid''
                \<and> vec_metadata r = [(''temperature'', temperature info),
                                     (''wind_speed'', wind_speed info)])"
    by (simp only: prod.case)
  with stub_fetches(1)
  have "weather_data ''Madrid'' = Some ?info
    \<and> (\<exists>v. [\<lparr>vec_id = ''Madrid'', vec_values = v,
               vec_metadata = [(''temperature'', temperature ?info),
                               (''wind_speed'', wind_speed ?info)]\<rparr>] \<in> set calls)
    \<and> (\<exists>r \<in> set (records index'). vec_id r = ''Madrid''
          \<and> vec_metadata r = [(''temperature'', temperature ?info),
                               (''wind_speed'', wind_speed ?info)])"
    by blast
  with run rec show ?thesis by (simp only: weather_info.simps) blast
qed

text \<open>
  C2. For every city mapping and every city whose weather fetch returns \<open>None\<close>, the run
  returns a dict (no error is raised) from which the city is absent, no batch handed to
  \<open>upsert\<close> holds a record with the city as id, and the records of the store under that
  id are those it held before.
\<close>

theorem failed_fetch_is_skipped:
  assumes "distinct (map fst cities)"
    and "\<forall>(c, la, lo) \<in> set cities. \<exists>r. get_current_weather w c la lo = Inr r"
    and "length (embedding_model (map fst cities)) = length cities"
  shows "\<exists>weather_data index' calls.
      fetch_and_store_weather_data w cities embedding_model store_client index =
        (Inr weather_data, index')
    \<and> fetch_and_store_weather_data w cities embedding_model recording_client [] =
        (Inr weather_data, calls)
    \<and> (\<forall>(c, la, lo) \<in> set cities.
          get_current_weather w c la lo = Inr None \<longrightarrow>
            weather_data c = None
          \<and> (\<forall>batch \<in> set calls. \<forall>r \<in> set batch. vec_id r \<noteq> c)
          \<and> filter (\<lambda>r. vec_id r = c) (records index') =
              filter (\<lambda>r. vec_id r = c) (records index))"
proof -
  let ?embs = "embedding_model (map fst cities)"
  let ?F = "fetched w (enumerate 0 cities)"
  let ?wd = "map_of (rev (map snd ?F))"
  let ?ix = "foldl upsert1 index (map (to_record ?embs) ?F)"
  let ?calls = "map (\<lambda>x. [to_record ?embs x]) ?F"
  have len: "length cities \<le> length ?embs" using assms(3) by simp
  have run: "fetch_and_store_weather_data w cities embedding_model store_client index =
      (Inr ?wd, ?ix)"
    using assms(2) len by (rule run_store_closed)
  have rec: "fetch_and_store_weather_data w cities embedding_model recording_client [] =
      (Inr ?wd, ?calls)"
    using run_recording_closed[where w = w and cities = cities
        and embedding_model = embedding_model and calls = "[]", OF assms(2) len]
    by simp
  have skipped: "?wd c = None
          \<and> (\<forall>batch \<in> set ?calls. \<forall>r \<in> set batch. vec_id r \<noteq> c)
          \<and> filter (\<lambda>r. vec_id r = c) (records ?ix) = filter (\<lambda>r. vec_id r = c) (records index)"
    if m: "(c, la, lo) \<in> set cities" and g: "get_current_weather w c la lo = Inr None"
    for c la lo
  proof -
    note never = one_entry_per_city[OF assms(1) m g]
    have "\<forall>batch \<in> set ?calls. \<forall>r \<in> set batch. vec_id r \<noteq> c"
    proof (intro ballI)
      fix batch r
      assume "batch \<in> set ?calls" and r: "r \<in> set batch"
      then obtain x where x: "x \<in> set ?F" and "batch = [to_record ?embs x]" by auto
      with r have "vec_id r = fst (snd x)" by (simp add: vec_id_to_record)
      moreover have "fst (snd x) \<noteq> c" using fetched_failure[OF never] x by blast
      ultimately show "vec_id r \<noteq> c" by simp
    qed
    with dict_failure[OF never] store_failure[OF never, of index ?embs] show ?thesis by blast
  qed
  then have all: "\<forall>(c, la, lo) \<in> set cities.
          get_current_weather w c la lo = Inr None \<longrightarrow>
            ?wd c = None
          \<and> (\<forall>batch \<in> set ?calls. \<forall>r \<in> set batch. vec_id r \<noteq> c)
          \<and> filter (\<lambda>r. vec_id r = c) (records ?ix) = filter (\<lambda>r. vec_id r = c) (records index)"
    by blast
  show ?thesis
    using run rec all by (intro exI[of _ ?wd] exI[of _ ?ix] exI[of _ ?calls] conjI)
qed

theorem failed_fetch_is_skipped_witness:
  "\<exists>weather_data index' calls.
      fetch_and_store_weather_data stub_world stub_cities stub_encode store_client
        (stub_store 0.9) = (Inr weather_data, index')
    \<and> fetch_and_store_weather_data stub_world stub_cities stub_encode recording_client [] =
        (Inr weather_data, calls)
    \<and> weather_data ''Bilbao'' = None
    \<and> (\<forall>batch \<in> set calls. \<forall>r \<in> set batch. vec_id r \<noteq> ''Bilbao'')
    \<and> filter (\<lambda>r. vec_id r = ''Bilbao'') (records index') = []"
proof -
  from failed_fetch_is_skipped
    [where w = stub_world and cities = stub_cities and embedding_model = stub_encode
      and index = "stub_store 0.9", OF stub_cities_distinct stub_no_raise stub_encode_length]
  obtain weather_data index' calls where
    run: "fetch_and_store_weather_data stub_world stub_cities stub_encode store_client
        (stub_store 0.9) = (Inr weather_data, index')"
    and rec: "fetch_and_store_weather_data stub_world stub_cities stub_encode recording_client [] =
        (Inr weather_data, calls)"
    and each: "\<forall>(c, la, lo) \<in> set stub_cities.
          get_current_weather stub_world c la lo = Inr None \<longrightarrow>
            weather_data c = None
          \<and> (\<forall>batch \<in> set calls. \<forall>r \<in> set batch. vec_id r \<noteq> c)
          \<and> filter (\<lambda>r. vec_id r = c) (records index') =
              filter (\<lambda>r. vec_id r = c) (records (stub_store 0.9))"
    by blast
  from bspec[OF each stub_members(3)]
  have "get_current_weather stub_world ''Bilbao'' 43.26 (- 2.93) = Inr None \<longrightarrow>
            weather_data ''Bilbao'' = None
          \<and> (\<forall>batch \<in> set calls. \<forall>r \<in> set batch. vec_id r \<noteq> ''Bilbao'')
          \<and> filter (\<lambda>r. vec_id r = ''Bilbao'') (records index') =
              filter (\<lambda>r. vec_id r = ''Bilbao'') (records (stub_store 0.9))"
    by (simp only: prod.case)
  moreover have "filter (\<lambda>r. vec_id r = ''Bilbao'') (records (stub_store 0.9)) = []"
    by (simp add: stub_store_empty)
  ultimately have "weather_data ''Bilbao'' = None
    \<and> (\<forall>batch \<in> set calls. \<forall>r \<in> set batch. vec_id r \<noteq> ''Bilbao'')
    \<and> filter (\<lambda>r. vec_id r = ''Bilbao'') (records index') = []"
    using stub_fetches(3) by metis
  with run rec show ?thesis by blast
qed

text \<open>
  C6. The embedding model is taken to return one vector per text, in order, each the
  vector of its own text (\<open>encode(names) = [vector_of(n) for n in names]\<close>). Then for every
  city mapping the run equals the run that embeds each city name in a call of its own,
  on every index; every batch handed to \<open>upsert\<close> holds one record, whose vector is the
  row of the batch embedding at the position of its city; the vector of every upserted
  record is the vector of its own id; and for every successfully fetched city the record
  with the city's own vector is upserted.
\<close>

theorem batch_embedding_is_per_name:
  assumes "\<forall>(c, la, lo) \<in> set cities. \<exists>r. get_current_weather w c la lo = Inr r"
    and "\<And>names. embedding_model names = map vector_of names"
  shows "fetch_and_store_weather_data w cities embedding_model client index =
           fetch_and_store_per_name w cities embedding_model client index
    \<and> (\<exists>weather_data calls.
          fetch_and_store_weather_data w cities embedding_model recording_client [] =
            (Inr weather_data, calls)
        \<and> (\<forall>batch \<in> set calls. \<exists>i c la lo info.
              i < length cities \<and> cities ! i = (c, la, lo)
            \<and> get_current_weather w c la lo = Inr (Some info)
            \<and> batch = [\<lparr>vec_id = c, vec_values = embedding_model (map fst cities) ! i,
                         vec_metadata = [(''temperature'', temperature info),
                                         (''wind_speed'', wind_speed info)]\<rparr>])
        \<and> (\<forall>batch \<in> set calls. \<forall>r \<in> set batch. vec_values r = vector_of (vec_id r))
        \<and> (\<forall>(c, la, lo) \<in> set cities. \<forall>info.
              get_current_weather w c la lo = Inr (Some info) \<longrightarrow>
                [\<lparr>vec_id = c, vec_values = vector_of c,
                  vec_metadata = [(''temperature'', temperature info),
                                  (''wind_speed'', wind_speed info)]\<rparr>] \<in> set calls))"
proof -
  let ?embs = "embedding_model (map fst cities)"
  let ?F = "fetched w (enumerate 0 cities)"
  let ?wd = "map_of (rev (map snd ?F))"
  let ?calls = "map (\<lambda>x. [to_record ?embs x]) ?F"
  have len: "length cities \<le> length ?embs" by (simp add: assms(2))
  have nth: "?embs ! i = vector_of c" if "i < length cities" "cities ! i = (c, la, lo)" for i c la lo
    using that by (simp add: assms(2))
  have eq: "fetch_and_store_weather_data w cities embedding_model client index =
           fetch_and_store_per_name w cities embedding_model client index"
    using ingest_loop_per_name_eq[where embedding_model = embedding_model and vector_of = vector_of
        and pre = "[]" and cities = cities and w = w and client = client
        and wd = Map.empty and ix = index, OF assms(2)]
    by (simp add: fetch_and_store_weather_data_def fetch_and_store_per_name_def assms(2))
  have rec: "fetch_and_store_weather_data w cities embedding_model recording_client [] =
      (Inr ?wd, ?calls)"
    using run_recording_closed[where w = w and cities = cities
        and embedding_model = embedding_model and calls = "[]", OF assms(1) len]
    by simp
  have position: "\<forall>batch \<in> set ?calls. \<exists>i c la lo info.
              i < length cities \<and> cities ! i = (c, la, lo)
            \<and> get_current_weather w c la lo = Inr (Some info)
            \<and> batch = [\<lparr>vec_id = c, vec_values = ?embs ! i,
                         vec_metadata = [(''temperature'', temperature info),
                                         (''wind_speed'', wind_speed info)]\<rparr>]"
    using recorded_batch[of _ ?embs w cities] unfolding weather_metadata_def by blast
  have own: "\<forall>batch \<in> set ?calls. \<forall>r \<in> set batch. vec_values r = vector_of (vec_id r)"
  proof (intro ballI)
    fix batch r
    assume "batch \<in> set ?calls" and r: "r \<in> set batch"
    from recorded_batch[OF this(1)] obtain i c la lo info where
      "i < length cities" "cities ! i = (c, la, lo)"
      "batch = [\<lparr>vec_id = c, vec_values = ?embs ! i, vec_metadata = weather_metadata info\<rparr>]"
      by blast
    with r nth show "vec_values r = vector_of (vec_id r)" by simp
  qed
  have each: "[\<lparr>vec_id = c, vec_values = vector_of c,
                  vec_metadata = [(''temperature'', temperature info),
                                  (''wind_speed'', wind_speed info)]\<rparr>] \<in> set ?calls"
    if m: "(c, la, lo) \<in> set cities" and g: "get_current_weather w c la lo = Inr (Some info)"
    for c la lo info
  proof -
    from fetched_success[OF m g] obtain i where i: "i < length cities"
      and ci: "cities ! i = (c, la, lo)" and f: "(i, c, info) \<in> set ?F" by blast
    from f have "(\<lambda>x. [to_record ?embs x]) (i, c, info) \<in> set ?calls"
      by (simp only: set_map) (rule imageI)
    then show ?thesis using nth[OF i ci] by (simp add: to_record_def weather_metadata_def)
  qed
  then have all: "\<forall>(c, la, lo) \<in> set cities. \<forall>info.
              get_current_weather w c la lo = Inr (Some info) \<longrightarrow>
                [\<lparr>vec_id = c, vec_values = vector_of c,
                  vec_metadata = [(''temperature'', temperature info),
                                  (''wind_speed'', wind_speed info)]\<rparr>] \<in> set ?calls"
    by blast
  show ?thesis
    using eq rec position own all
    by (intro conjI exI[of _ ?wd] exI[of _ ?calls])
qed

theorem batch_embedding_is_per_name_witness:
  "fetch_and_store_weather_data stub_world stub_cities stub_encode store_client (stub_store 0.9) =
     fetch_and_store_per_name stub_world stub_cities stub_encode store_client (stub_store 0.9)
   \<and> (\<exists>weather_data calls.
          fetch_and_store_weather_data stub_world stub_cities stub_encode recording_client [] =
            (Inr weather_data, calls)
        \<and> [\<lparr>vec_id = ''Madrid'', vec_values = 6,
             vec_metadata = [(''temperature'', JInt 15), (''wind_speed'', JInt 10)]\<rparr>] \<in> set calls)"
proof -
  note inst = batch_embedding_is_per_name
    [where w = stub_world and cities = stub_cities and embedding_model = stub_encode
      and vector_of = length and client = store_client and index = "stub_store 0.9",
      OF stub_no_raise stub_encode_contract]
  from inst obtain weather_data calls where
    rec: "fetch_and_store_weather_data stub_world stub_cities stub_encode recording_client [] =
            (Inr weather_data, calls)"
    and each: "\<forall>(c, la, lo) \<in> set stub_cities. \<forall>info.
              get_current_weather stub_world c la lo = Inr (Some info) \<longrightarrow>
                [\<lparr>vec_id = c, vec_values = length c,
                  vec_metadata = [(''temperature'', temperature info),
                                  (''wind_speed'', wind_speed info)]\<rparr>] \<in> set calls"
    by blast
  from bspec[OF each stub_members(1)]
  have "\<forall>info. get_current_weather stub_world ''Madrid'' 40.42 (- 3.70) = Inr (Some info) \<longrightarrow>
                [\<lparr>vec_id = ''Madrid'', vec_values = length ''Madrid'',
                  vec_metadata = [(''temperature'', temperature info),
                                  (''wind_speed'', wind_speed info)]\<rparr>] \<in> set calls"
    by (simp only: prod.case)
  with stub_fetches(1)
  have "[\<lparr>vec_id = ''Madrid'', vec_values = length ''Madrid'',
          vec_metadata = [(''temperature'', temperature \<lparr>temperature = JInt 15, wind_speed = JInt 10\<rparr>),
             (''wind_speed'', wind_speed \<lparr>temperature = JInt 15, wind_speed = JInt 10\<rparr>)]\<rparr>] \<in> set calls"
    by blast
  moreover have "length ''Madrid'' = 6" by simp
  ultimately have "[\<lparr>vec_id = ''Madrid'', vec_values = 6,
             vec_metadata = [(''temperature'', JInt 15), (''wind_speed'', JInt 10)]\<rparr>] \<in> set calls"
    by (simp only: weather_info.simps)
  with rec inst show ?thesis by blast
qed

text \<open>
  C7. After two ingestions in which the weather fetch of a city succeeded, the second
  run starting from the store the first one left, the store of the specification holds
  exactly one record with the city name as id, and it carries the metadata of the second
  ingestion.
\<close>

theorem reingestion_overwrites:
  assumes "distinct (map fst cities)"
    and "\<forall>(c, la, lo) \<in> set cities. \<exists>r. get_current_weather w c la lo = Inr r"
    and "length (embedding_model (map fst cities)) = length cities"
    and "distinct (map fst cities')"
    and "\<forall>(c, la, lo) \<in> set cities'. \<exists>r. get_current_weather w' c la lo = Inr r"
    and "length (embedding_model' (map fst cities')) = length cities'"
    and "(city, lat, lon) \<in> set cities"
    and "get_current_weather w city lat lon = Inr (Some info)"
    and "(city, lat', lon') \<in> set cities'"
    and "get_current_weather w' city lat' lon' = Inr (Some info')"
  shows "\<exists>weather_data index1 weather_data' index2 v.
      fetch_and_store_weather_data w cities embedding_model store_client index =
        (Inr weather_data, index1)
    \<and> fetch_and_store_weather_data w' cities' embedding_model' store_client index1 =
        (Inr weather_data', index2)
    \<and> filter (\<lambda>r. vec_id r = city) (records index2) =
        [\<lparr>vec_id = city, vec_values = v,
          vec_metadata = [(''temperature'', temperature info'),
                          (''wind_speed'', wind_speed info')]\<rparr>]
    \<and> length (filter (\<lambda>r. vec_id r = city) (records index2)) = 1"
proof -
  let ?embs = "embedding_model (map fst cities)"
  let ?F = "fetched w (enumerate 0 cities)"
  let ?ix1 = "foldl upsert1 index (map (to_record ?embs) ?F)"
  let ?embs' = "embedding_model' (map fst cities')"
  let ?F' = "fetched w' (enumerate 0 cities')"
  let ?ix2 = "foldl upsert1 ?ix1 (map (to_record ?embs') ?F')"
  have len: "length cities \<le> length ?embs" using assms(3) by simp
  have len': "length cities' \<le> length ?embs'" using assms(6) by simp
  have run1: "fetch_and_store_weather_data w cities embedding_model store_client index =
      (Inr (map_of (rev (map snd ?F))), ?ix1)"
    using assms(2) len by (rule run_store_closed)
  have run2: "fetch_and_store_weather_data w' cities' embedding_model' store_client ?ix1 =
      (Inr (map_of (rev (map snd ?F'))), ?ix2)"
    using assms(5) len' by (rule run_store_closed)
  from store_success[OF assms(4) assms(9) assms(10), of ?ix1 ?embs'] obtain i where
    f: "filter (\<lambda>r. vec_id r = city) (records ?ix2) =
        [\<lparr>vec_id = city, vec_values = ?embs' ! i, vec_metadata = weather_metadata info'\<rparr>]"
    by blast
  then have f': "filter (\<lambda>r. vec_id r = city) (records ?ix2) =
        [\<lparr>vec_id = city, vec_values = ?embs' ! i,
          vec_metadata = [(''temperature'', temperature info'),
                          (''wind_speed'', wind_speed info')]\<rparr>]"
    by (simp only: weather_metadata_def)
  then have one: "length (filter (\<lambda>r. vec_id r = city) (records ?ix2)) = 1" by simp
  show ?thesis
    using run1 run2 f' one
    by (intro exI[of _ "map_of (rev (map snd ?F))"] exI[of _ ?ix1]
        exI[of _ "map_of (rev (map snd ?F'))"] exI[of _ ?ix2] exI[of _ "?embs' ! i"] conjI)
qed

theorem reingestion_overwrites_witness:
  "\<exists>weather_data index1 weather_data' index2 v.
      fetch_and_store_weather_data stub_world stub_cities stub_encode store_client
        (stub_store 0.9) = (Inr weather_data, index1)
    \<and> fetch_and_store_weather_data stub_world_later stub_cities stub_encode store_client
        index1 = (Inr weather_data', index2)
    \<and> filter (\<lambda>r. vec_id r = ''Madrid'') (records index2) =
        [\<lparr>vec_id = ''Madrid'', vec_values = v,
          vec_metadata = [(''temperature'', JInt 21), (''wind_speed'', JInt 4)]\<rparr>]
    \<and> length (filter (\<lambda>r. vec_id r = ''Madrid'') (records index2)) = 1"
  using reingestion_overwrites
    [where w = stub_world and cities = stub_cities and embedding_model = stub_encode
      and w' = stub_world_later and cities' = stub_cities and embedding_model' = stub_encode
      and index = "stub_store 0.9" and city = "''Madrid''"
      and lat = "40.42" and lon = "- 3.70" and lat' = "40.42" and lon' = "- 3.70"
      and info = "\<lparr>temperature = JInt 15, wind_speed = JInt 10\<rparr>"
      and info' = "\<lparr>temperature = JInt 21, wind_speed = JInt 4\<rparr>",
      OF stub_cities_distinct stub_no_raise stub_encode_length
        stub_cities_distinct stub_later_no_raise stub_encode_length
        stub_members(1) stub_fetches(1) stub_members(1) stub_later_fetch]
  by (simp only: weather_info.simps)

section \<open>End to end\<close>

text \<open>
  C8. When the city mapping with the single entry Madrid at (40.42, -3.70) is ingested
  into an empty store, with a weather fetch that returns temperature 15 and wind speed
  10, and the similarity of the embedding of the query \<open>weather in madrid\<close> to the
  embedding of \<open>Madrid\<close> is 0.9, then the top match is Madrid with score 0.9 and
  \<open>query_weather\<close> returns the formatted weather string, which contains \<open>Madrid\<close>, \<open>15\<close>
  and \<open>10\<close>.
\<close>

theorem madrid_end_to_end:
  assumes "get_current_weather w ''Madrid'' 40.42 (- 3.70) =
             Inr (Some \<lparr>temperature = JInt 15, wind_speed = JInt 10\<rparr>)"
    and "embedding_model [''Madrid''] = [v]"
    and "embedding_model [''weather in madrid''] = [q]"
    and "records index = []"
    and "metric index q v = 0.9"
  shows "\<exists>weather_data index' answer.
      fetch_and_store_weather_data w [(''Madrid'', 40.42, - 3.70)] embedding_model
        store_client index = (Inr weather_data, index')
    \<and> weather_data ''Madrid'' = Some \<lparr>temperature = JInt 15, wind_speed = JInt 10\<rparr>
    \<and> query store_client index' q 1 True =
        Inr [\<lparr>match_id = ''Madrid'', match_score = 0.9,
              match_metadata = [(''temperature'', JInt 15), (''wind_speed'', JInt 10)]\<rparr>]
    \<and> query_weather repr ''weather in madrid'' embedding_model store_client index' = Inr answer
    \<and> answer = ''Today's weather in Madrid:\<newline>- Temperature: 15'' @
          [CHR 0xC3, CHR 0x82, CHR 0xC2, CHR 0xB0] @ ''C\<newline>- Wind speed: 10 km/h''
    \<and> str_contains answer ''Madrid''
    \<and> str_contains answer ''15''
    \<and> str_contains answer ''10''"
proof -
  let ?info = "\<lparr>temperature = JInt 15, wind_speed = JInt 10\<rparr>"
  let ?md = "[(''temperature'', JInt 15), (''wind_speed'', JInt 10)]"
  let ?ix = "index\<lparr>records := [\<lparr>vec_id = ''Madrid'', vec_values = v, vec_metadata = ?md\<rparr>]\<rparr>"
  let ?answer = "weather_message repr ''Madrid'' (JInt 15) (JInt 10)"
  have run: "fetch_and_store_weather_data w [(''Madrid'', 40.42, - 3.70)] embedding_model
        store_client index = (Inr [''Madrid'' \<mapsto> ?info], ?ix)"
    using assms(1,2,4)
    by (simp add: fetch_and_store_weather_data_def index_at_def store_client_def
        store_upsert_def upsert1_def)
  have q: "query store_client ?ix q 1 True =
        Inr [\<lparr>match_id = ''Madrid'', match_score = 0.9, match_metadata = ?md\<rparr>]"
    using assms(5) by (simp add: store_client_def store_query_def to_match_def)
  have ans: "query_weather repr ''weather in madrid'' embedding_model store_client ?ix =
      Inr ?answer"
    using assms(3) q
    by (simp add: query_weather_def index_at_def float_0_3_def get_or_None_def)
  have lit: "?answer = ''Today's weather in Madrid:\<newline>- Temperature: 15'' @
          [CHR 0xC3, CHR 0x82, CHR 0xC2, CHR 0xB0] @ ''C\<newline>- Wind speed: 10 km/h''"
    by (simp add: weather_message_def str_int_15_10)
  have c1: "str_contains ?answer ''Madrid''" by (rule weather_message_contains(1))
  have c2: "str_contains ?answer ''15''"
    using weather_message_contains(2)[of repr "''Madrid''" "JInt 15" "JInt 10"]
    by (simp add: str_int_15_10)
  have c3: "str_contains ?answer ''10''"
    using weather_message_contains(3)[of repr "''Madrid''" "JInt 15" "JInt 10"]
    by (simp add: str_int_15_10)
  show ?thesis
    using run q ans lit c1 c2 c3
    by (intro exI[of _ "[''Madrid'' \<mapsto> ?info]"] exI[of _ ?ix] exI[of _ ?answer] conjI)
      simp_all
qed

theorem madrid_end_to_end_witness:
  "\<exists>weather_data index'.
      fetch_and_store_weather_data stub_world [(''Madrid'', 40.42, - 3.70)] stub_encode
        store_client (stub_store 0.9) = (Inr weather_data, index')
    \<and> query_weather stub_repr ''weather in madrid'' stub_encode store_client index' =
        Inr (''Today's weather in Madrid:\<newline>- Temperature: 15'' @
          [CHR 0xC3, CHR 0x82, CHR 0xC2, CHR 0xB0] @ ''C\<newline>- Wind speed: 10 km/h'')"
  using madrid_end_to_end
    [where w = stub_world and embedding_model = stub_encode and index = "stub_store 0.9"
      and v = "length ''Madrid''" and q = "length ''weather in madrid''" and repr = stub_repr,
      OF stub_fetches(1) stub_encode_single stub_encode_single stub_store_empty
        stub_store_metric]
  by blast

section \<open>A response without weather data\<close>

text \<open>
  C10. A 200 response whose body is a JSON object without a \<open>current_weather\<close> member,
  or with a \<open>current_weather\<close> object that has neither \<open>temperature\<close> nor \<open>windspeed\<close>, is
  a successful fetch: \<open>get_current_weather\<close> returns the dict with both fields \<open>None\<close>,
  which is true as a condition, and the ingestion binds the city to that dict in its
  result and upserts its record with \<open>None\<close> for both metadata fields.
\<close>

theorem body_without_weather_is_stored:
  assumes "requests_get w (environ_WEATHER_URL w)
             \<lparr>param_latitude = lat, param_longitude = lon,
              param_current_weather = True\<rparr> = Inr response"
    and "status_code response = 200"
    and "response_json response = Some (JObj body)"
    and "map_of body ''current_weather'' = None
         \<or> (\<exists>data. map_of body ''current_weather'' = Some (JObj data)
               \<and> map_of data ''temperature'' = None \<and> map_of data ''windspeed'' = None)"
    and "distinct (map fst cities)"
    and "\<forall>(c, la, lo) \<in> set cities. \<exists>r. get_current_weather w c la lo = Inr r"
    and "length (embedding_model (map fst cities)) = length cities"
    and "(city, lat, lon) \<in> set cities"
  shows "get_current_weather w city lat lon =
           Inr (Some \<lparr>temperature = JNull, wind_speed = JNull\<rparr>)
    \<and> truthy (Some \<lparr>temperature = JNull, wind_speed = JNull\<rparr>)
    \<and> (\<exists>weather_data index' calls v.
          fetch_and_store_weather_data w cities embedding_model store_client index =
            (Inr weather_data, index')
        \<and> fetch_and_store_weather_data w cities embedding_model recording_client [] =
            (Inr weather_data, calls)
        \<and> weather_data city = Some \<lparr>temperature = JNull, wind_speed = JNull\<rparr>
        \<and> [\<lparr>vec_id = city, vec_values = v,
              vec_metadata = [(''temperature'', JNull), (''wind_speed'', JNull)]\<rparr>] \<in> set calls
        \<and> filter (\<lambda>r. vec_id r = city) (records index') =
            [\<lparr>vec_id = city, vec_values = v,
              vec_metadata = [(''temperature'', JNull), (''wind_speed'', JNull)]\<rparr>])"
proof -
  let ?null = "\<lparr>temperature = JNull, wind_speed = JNull\<rparr>"
  let ?embs = "embedding_model (map fst cities)"
  let ?F = "fetched w (enumerate 0 cities)"
  let ?wd = "map_of (rev (map snd ?F))"
  let ?ix = "foldl upsert1 index (map (to_record ?embs) ?F)"
  let ?calls = "map (\<lambda>x. [to_record ?embs x]) ?F"
  have g: "get_current_weather w city lat lon = Inr (Some ?null)"
    using assms(1-4) by (auto simp: get_current_weather_def)
  have len: "length cities \<le> length ?embs" using assms(7) by simp
  have run: "fetch_and_store_weather_data w cities embedding_model store_client index =
      (Inr ?wd, ?ix)"
    using assms(6) len by (rule run_store_closed)
  have rec: "fetch_and_store_weather_data w cities embedding_model recording_client [] =
      (Inr ?wd, ?calls)"
    using run_recording_closed[where w = w and cities = cities
        and embedding_model = embedding_model and calls = "[]", OF assms(6) len]
    by simp
  have d: "?wd city = Some ?null" using assms(5,8) g by (rule dict_success)
  from fetched_success[OF assms(8) g] obtain i where i: "i < length cities"
    and ci: "cities ! i = (city, lat, lon)" and m: "(i, city, ?null) \<in> set ?F" by blast
  have dist: "distinct (map vec_id (map (to_record ?embs) ?F))"
    using fetched_enumerate_distinct[OF assms(5), of w] by (simp add: comp_def vec_id_to_record)
  from m have r: "to_record ?embs (i, city, ?null) \<in> set (map (to_record ?embs) ?F)"
    by (simp only: set_map) (rule imageI)
  have "filter (\<lambda>x. vec_id x = vec_id (to_record ?embs (i, city, ?null))) (records ?ix) =
      [to_record ?embs (i, city, ?null)]"
    using r dist by (rule upsert1_stored)
  then have f: "filter (\<lambda>r. vec_id r = city) (records ?ix) =
       [\<lparr>vec_id = city, vec_values = ?embs ! i,
         vec_metadata = [(''temperature'', JNull), (''wind_speed'', JNull)]\<rparr>]"
    by (simp add: to_record_def weather_metadata_def)
  from m have "(\<lambda>x. [to_record ?embs x]) (i, city, ?null) \<in> set ?calls"
    by (simp only: set_map) (rule imageI)
  then have c: "[\<lparr>vec_id = city, vec_values = ?embs ! i,
         vec_metadata = [(''temperature'', JNull), (''wind_speed'', JNull)]\<rparr>] \<in> set ?calls"
    by (simp add: to_record_def weather_metadata_def)
  have "\<exists>weather_data index' calls v.
          fetch_and_store_weather_data w cities embedding_model store_client index =
            (Inr weather_data, index')
        \<and> fetch_and_store_weather_data w cities embedding_model recording_client [] =
            (Inr weather_data, calls)
        \<and> weather_data city = Some ?null
        \<and> [\<lparr>vec_id = city, vec_values = v,
              vec_metadata = [(''temperature'', JNull), (''wind_speed'', JNull)]\<rparr>] \<in> set calls
        \<and> filter (\<lambda>r. vec_id r = city) (records index') =
            [\<lparr>vec_id = city, vec_values = v,
              vec_metadata = [(''temperature'', JNull), (''wind_speed'', JNull)]\<rparr>]"
    using run rec d c f
    by (intro exI[of _ ?wd] exI[of _ ?ix] exI[of _ ?calls] exI[of _ "?embs ! i"] conjI)
  with g show ?thesis by simp
qed

theorem body_without_weather_is_stored_witness:
  "get_current_weather stub_world ''Barcelona'' 41.39 2.16 =
     Inr (Some \<lparr>temperature = JNull, wind_speed = JNull\<rparr>)
   \<and> (\<exists>weather_data index' calls v.
          fetch_and_store_weather_data stub_world stub_cities stub_encode store_client
            (stub_store 0.9) = (Inr weather_data, index')
        \<and> fetch_and_store_weather_data stub_world stub_cities stub_encode recording_client [] =
            (Inr weather_data, calls)
        \<and> weather_data ''Barcelona'' = Some \<lparr>temperature = JNull, wind_speed = JNull\<rparr>
        \<and> [\<lparr>vec_id = ''Barcelona'', vec_values = v,
              vec_metadata = [(''temperature'', JNull), (''wind_speed'', JNull)]\<rparr>] \<in> set calls
        \<and> filter (\<lambda>r. vec_id r = ''Barcelona'') (records index') =
            [\<lparr>vec_id = ''Barcelona'', vec_values = v,
              vec_metadata = [(''temperature'', JNull), (''wind_speed'', JNull)]\<rparr>])"
  using body_without_weather_is_stored
    [where w = stub_world and lat = "41.39" and lon = "2.16" and city = "''Barcelona''"
      and response = "\<lparr>status_code = 200, response_json = Some (JObj [])\<rparr>"
      and body = "[]" and cities = stub_cities and embedding_model = stub_encode
      and index = "stub_store 0.9",
      OF stub_requests(2) _ _ stub_empty_body stub_cities_distinct stub_no_raise
        stub_encode_length stub_members(2)]
  by simp

end
